theory Spec2Isabelle
  imports Main "HOL-Library.Word" "HOL-Library.List_Lexorder" "HOL-Library.Multiset"
begin

section \<open>The picture gallery panel of the camera sample\<close>

text \<open>
  A shallow embedding of the React component \<^verbatim>\<open>PicturesBottomPanel\<close>
  (\<^verbatim>\<open>react-app/src/frontend/CameraSample/PicturesBottomPanel.tsx\<close>): its state hooks
  are a record, each callback is a function from the state to the new state and the
  list of calls it makes on its collaborators (\<^verbatim>\<open>ImageCache\<close>,
  \<^verbatim>\<open>ImageMarkerApi\<close>, \<^verbatim>\<open>presentYesNoAlert\<close>, \<^verbatim>\<open>ReloadedEvent\<close>).
  What a collaborator answers (the URLs of \<^verbatim>\<open>getImages\<close>, the boolean of
  \<^verbatim>\<open>pickImage\<close>, the answer to the alert) is a parameter of the callback.
  A callback runs to its end, the \<^verbatim>\<open>reload\<close> it starts included, before the next
  one begins: the interleaving of two pending promises is outside this model. So is a
  promise of a collaborator that rejects (the source catches nothing), and the bubbling
  of a click on the share or delete button of a picture to the list item around it.
\<close>

subsection \<open>Strings and the default sort\<close>

text \<open>
  A JavaScript string is a sequence of UTF-16 code units. \<^verbatim>\<open>Array.prototype.sort\<close>
  without a comparator orders strings by their code units, a proper prefix first: the
  lexicographic order of lists over the unsigned order of 16-bit words.
\<close>

type_synonym jsstring = "16 word list"

definition js :: "string \<Rightarrow> jsstring" where
  "js cs = map of_char cs"

definition array_sort :: "jsstring list \<Rightarrow> jsstring list" where
  "array_sort urls = sort urls"

subsection \<open>The JavaScript \<^verbatim>\<open>Set\<close>\<close>

text \<open>
  A \<^verbatim>\<open>Set\<close> keeps its elements in insertion order, each once: a list without
  repetition. \<^verbatim>\<open>add\<close> of a present element changes nothing, \<^verbatim>\<open>new Set(xs)\<close>
  adds the elements of \<open>xs\<close> in turn, and \<^verbatim>\<open>Array.from\<close> reads the list.
\<close>

type_synonym 'a js_set = "'a list"

definition set_has :: "'a js_set \<Rightarrow> 'a \<Rightarrow> bool" where
  "set_has S x = (x \<in> set S)"

definition set_add :: "'a \<Rightarrow> 'a js_set \<Rightarrow> 'a js_set" where
  "set_add x S = (if set_has S x then S else S @ [x])"

definition set_delete :: "'a \<Rightarrow> 'a js_set \<Rightarrow> 'a js_set" where
  "set_delete x S = removeAll x S"

definition set_size :: "'a js_set \<Rightarrow> nat" where
  "set_size S = length S"

definition new_Set :: "'a list \<Rightarrow> 'a js_set" where
  "new_Set xs = fold set_add xs []"

definition array_from :: "'a js_set \<Rightarrow> 'a list" where
  "array_from S = S"

subsection \<open>State and collaborators\<close>

text \<open>The four \<^verbatim>\<open>React.useState\<close> hooks of the component.\<close>

record panel =
  pictureUrls :: "jsstring list"
  decoratorActive :: bool
  selectMode :: bool
  selectedUrls :: "jsstring js_set"

definition initial :: panel where
  "initial = \<lparr>pictureUrls = [], decoratorActive = True, selectMode = False, selectedUrls = new_Set []\<rparr>"

text \<open>The bounding rectangle handed to the share sheet: x, y, width, height.\<close>

type_synonym rect = "int \<times> int \<times> int \<times> int"

text \<open>
  The calls a callback makes, in the order it makes them. The first argument of the
  \<^verbatim>\<open>ImageCache\<close> calls that have one is \<^verbatim>\<open>iModel.iModelId\<close>; the optional
  \<^verbatim>\<open>fromLibrary\<close> of \<^verbatim>\<open>pickImage\<close> is \<open>None\<close> where the call leaves it out.
  The alert carries the localisation keys of its title and message.
\<close>

datatype effect =
    GetImages jsstring
  | DeleteImages "jsstring list"
  | DeleteAllImages jsstring
  | ShareImages "jsstring list" "rect option"
  | PickImage jsstring "bool option"
  | PresentYesNoAlert string string bool
  | ReloadedEmit
  | ImageSelectedEmit jsstring
  | SetMarkerEnabled bool

fun is_store_op :: "effect \<Rightarrow> bool" where
  "is_store_op (GetImages _) = True"
| "is_store_op (DeleteImages _) = True"
| "is_store_op (DeleteAllImages _) = True"
| "is_store_op (ShareImages _ _) = True"
| "is_store_op (PickImage _ _) = True"
| "is_store_op _ = False"

subsection \<open>The callbacks\<close>

text \<open>
  \<^verbatim>\<open>reload\<close>: \<open>fetched\<close> is what \<^verbatim>\<open>ImageCache.getImages(iModel.iModelId)\<close>
  resolved to.
\<close>

definition reload :: "jsstring \<Rightarrow> jsstring list \<Rightarrow> panel \<Rightarrow> panel \<times> effect list" where
  "reload iModelId fetched s =
     (let urls = array_sort fetched;
          s1 = s\<lparr>pictureUrls := urls\<rparr>;
          s2 = (if length urls = 0
                then s1\<lparr>selectMode := False, selectedUrls := new_Set []\<rparr>
                else s1)
      in (s2, [GetImages iModelId, ReloadedEmit]))"

text \<open>
  \<^verbatim>\<open>togglePictureSelected\<close>: the functional update of \<^verbatim>\<open>setSelectedUrls\<close>, applied
  to the selection of the moment.
\<close>

definition togglePictureSelected :: "jsstring \<Rightarrow> panel \<Rightarrow> panel" where
  "togglePictureSelected pictureUrl s =
     (let newSelected = new_Set (selectedUrls s)
      in s\<lparr>selectedUrls :=
             (if set_has newSelected pictureUrl
              then set_delete pictureUrl newSelected
              else set_add pictureUrl newSelected)\<rparr>)"

definition handlePictureClick :: "jsstring \<Rightarrow> panel \<Rightarrow> panel \<times> effect list" where
  "handlePictureClick pictureUrl s =
     (if selectMode s
      then (togglePictureSelected pictureUrl s, [])
      else (s, [ImageSelectedEmit pictureUrl]))"

text \<open>
  The \<^verbatim>\<open>onClick\<close> handlers of the buttons are anonymous in the source; they carry the
  names of the operations they implement. \<open>answer\<close> is what \<^verbatim>\<open>presentYesNoAlert\<close>
  resolved to, \<open>picked\<close> what \<^verbatim>\<open>ImageCache.pickImage\<close> resolved to, \<open>fetched\<close>
  what the \<^verbatim>\<open>getImages\<close> of the following \<^verbatim>\<open>reload\<close> resolved to (read only where
  that \<^verbatim>\<open>reload\<close> runs).
\<close>

text \<open>The share button of one picture (\<^verbatim>\<open>className="share-button"\<close>).\<close>

definition shareOne :: "jsstring \<Rightarrow> rect option \<Rightarrow> panel \<Rightarrow> panel \<times> effect list" where
  "shareOne pictureUrl r s = (s, [ShareImages [pictureUrl] r])"

text \<open>The delete button of one picture (\<^verbatim>\<open>className="delete-button"\<close>).\<close>

definition deleteOne ::
  "jsstring \<Rightarrow> bool \<Rightarrow> jsstring list \<Rightarrow> jsstring \<Rightarrow> panel \<Rightarrow> panel \<times> effect list" where
  "deleteOne iModelId answer fetched pictureUrl s =
     (if answer
      then (let (s', effs) = reload iModelId fetched s
            in (s', [PresentYesNoAlert ''DeletePictureTitle'' ''DeletePictureMessage'' True,
                     DeleteImages [pictureUrl]] @ effs))
      else (s, [PresentYesNoAlert ''DeletePictureTitle'' ''DeletePictureMessage'' True]))"

text \<open>The edit button (\<^verbatim>\<open>icon-edit\<close>).\<close>

definition editToggle :: "panel \<Rightarrow> panel \<times> effect list" where
  "editToggle s = (s\<lparr>selectMode := \<not> selectMode s\<rparr>, [])"

text \<open>
  The camera button (\<^verbatim>\<open>icon-camera\<close>, \<open>fromLibrary = None\<close>) and the library button
  (\<^verbatim>\<open>icon-image\<close>, \<open>fromLibrary = Some True\<close>).
\<close>

definition pickImage ::
  "jsstring \<Rightarrow> bool option \<Rightarrow> bool \<Rightarrow> jsstring list \<Rightarrow> panel \<Rightarrow> panel \<times> effect list" where
  "pickImage iModelId fromLibrary picked fetched s =
     (if picked
      then (let (s', effs) = reload iModelId fetched s
            in (s', PickImage iModelId fromLibrary # effs))
      else (s, [PickImage iModelId fromLibrary]))"

text \<open>
  The visibility button (\<^verbatim>\<open>icon-visibility\<close>); \<open>enabled\<close> is
  \<^verbatim>\<open>ImageMarkerApi.enabled\<close> as the handler finds it.
\<close>

definition toggleDecoratorVisibility :: "bool \<Rightarrow> panel \<Rightarrow> panel \<times> effect list" where
  "toggleDecoratorVisibility enabled s =
     (s\<lparr>decoratorActive := \<not> enabled\<rparr>, [SetMarkerEnabled (\<not> enabled)])"

text \<open>The select-all button (\<^verbatim>\<open>icon-checkbox-select\<close>).\<close>

definition toggleSelectAll :: "panel \<Rightarrow> panel \<times> effect list" where
  "toggleSelectAll s =
     (if set_size (selectedUrls s) = length (pictureUrls s)
      then (s\<lparr>selectedUrls := new_Set []\<rparr>, [])
      else (s\<lparr>selectedUrls := new_Set (pictureUrls s)\<rparr>, []))"

text \<open>The share button of the selection.\<close>

definition shareSelected :: "rect \<Rightarrow> panel \<Rightarrow> panel \<times> effect list" where
  "shareSelected r s = (s, [ShareImages (array_from (selectedUrls s)) (Some r)])"

text \<open>
  The delete button of the selection (\<^verbatim>\<open>icon-delete\<close> in select mode). The alert is
  the right operand of \<^verbatim>\<open>&&\<close>: it is presented once, in the branch \<open>all\<close> picks.
\<close>

definition deleteSelected ::
  "jsstring \<Rightarrow> bool \<Rightarrow> jsstring list \<Rightarrow> panel \<Rightarrow> panel \<times> effect list" where
  "deleteSelected iModelId answer fetched s =
     (let all = (length (pictureUrls s) = set_size (selectedUrls s))
      in if all then
           (if answer
            then (let (s', effs) = reload iModelId fetched s
                  in (s', [PresentYesNoAlert ''DeleteAllTitle'' ''DeleteAllMessage'' True,
                           DeleteAllImages iModelId] @ effs))
            else (s, [PresentYesNoAlert ''DeleteAllTitle'' ''DeleteAllMessage'' True]))
         else
           (if answer
            then (let (s', effs) = reload iModelId fetched s
                  in (s', [PresentYesNoAlert ''DeleteSelectedTitle'' ''DeleteSelectedMessage'' True,
                           DeleteImages (array_from (selectedUrls s))] @ effs))
            else (s, [PresentYesNoAlert ''DeleteSelectedTitle'' ''DeleteSelectedMessage'' True])))"

subsection \<open>The panel as a transition system\<close>

text \<open>
  What can happen to the panel: the effect that runs \<^verbatim>\<open>reload\<close> when the component
  mounts, the \<^verbatim>\<open>onMarkerAdded\<close> event, and a click on each control, with the answers
  of the collaborators.
\<close>

datatype event =
    Mounted "jsstring list"
  | MarkerAdded "jsstring list"
  | PictureClick jsstring
  | ShareClick jsstring "rect option"
  | DeleteClick jsstring bool "jsstring list"
  | EditClick
  | CameraClick bool "jsstring list"
  | ImageClick bool "jsstring list"
  | VisibilityClick bool
  | SelectAllClick
  | ShareSelectedClick rect
  | DeleteSelectedClick bool "jsstring list"

text \<open>
  The conditions under which the JSX renders the control of an event: one list item
  for each element of \<^verbatim>\<open>pictureUrls\<close>, and the \<^verbatim>\<open>&&\<close> guards on \<^verbatim>\<open>selectMode\<close>
  and \<^verbatim>\<open>pictureUrls.length > 0\<close>.
\<close>

fun rendered :: "panel \<Rightarrow> event \<Rightarrow> bool" where
  "rendered s (Mounted _) = True"
| "rendered s (MarkerAdded _) = True"
| "rendered s (PictureClick u) = (u \<in> set (pictureUrls s))"
| "rendered s (ShareClick u _) = (u \<in> set (pictureUrls s) \<and> \<not> selectMode s)"
| "rendered s (DeleteClick u _ _) = (u \<in> set (pictureUrls s) \<and> \<not> selectMode s)"
| "rendered s EditClick = (length (pictureUrls s) > 0)"
| "rendered s (CameraClick _ _) = (\<not> selectMode s)"
| "rendered s (ImageClick _ _) = (\<not> selectMode s)"
| "rendered s (VisibilityClick _) = (\<not> selectMode s)"
| "rendered s SelectAllClick = selectMode s"
| "rendered s (ShareSelectedClick _) = selectMode s"
| "rendered s (DeleteSelectedClick _ _) = selectMode s"

text \<open>The value of the \<^verbatim>\<open>enabled\<close> property of the control, where it has one.\<close>

fun enabled_prop :: "panel \<Rightarrow> event \<Rightarrow> bool" where
  "enabled_prop s SelectAllClick = (length (pictureUrls s) > 0)"
| "enabled_prop s (ShareSelectedClick _) = (set_size (selectedUrls s) > 0)"
| "enabled_prop s (DeleteSelectedClick _ _) = (set_size (selectedUrls s) > 0)"
| "enabled_prop s _ = True"

fun handle :: "jsstring \<Rightarrow> event \<Rightarrow> panel \<Rightarrow> panel \<times> effect list" where
  "handle iModelId (Mounted fetched) s = reload iModelId fetched s"
| "handle iModelId (MarkerAdded fetched) s = reload iModelId fetched s"
| "handle iModelId (PictureClick u) s = handlePictureClick u s"
| "handle iModelId (ShareClick u r) s = shareOne u r s"
| "handle iModelId (DeleteClick u answer fetched) s = deleteOne iModelId answer fetched u s"
| "handle iModelId EditClick s = editToggle s"
| "handle iModelId (CameraClick picked fetched) s = pickImage iModelId None picked fetched s"
| "handle iModelId (ImageClick picked fetched) s = pickImage iModelId (Some True) picked fetched s"
| "handle iModelId (VisibilityClick enabled) s = toggleDecoratorVisibility enabled s"
| "handle iModelId SelectAllClick s = toggleSelectAll s"
| "handle iModelId (ShareSelectedClick r) s = shareSelected r s"
| "handle iModelId (DeleteSelectedClick answer fetched) s = deleteSelected iModelId answer fetched s"

text \<open>
  One step: an event whose control is not rendered cannot happen. \<open>run\<close> plays a list
  of events from a state and collects the calls made.
\<close>

definition step :: "jsstring \<Rightarrow> event \<Rightarrow> panel \<Rightarrow> (panel \<times> effect list) option" where
  "step iModelId e s = (if rendered s e then Some (handle iModelId e s) else None)"

fun run :: "jsstring \<Rightarrow> event list \<Rightarrow> panel \<Rightarrow> (panel \<times> effect list) option" where
  "run iModelId [] s = Some (s, [])"
| "run iModelId (e # es) s =
     (case step iModelId e s of
        None \<Rightarrow> None
      | Some (s', effs) \<Rightarrow>
          (case run iModelId es s' of
             None \<Rightarrow> None
           | Some (s'', effs') \<Rightarrow> Some (s'', effs @ effs')))"

text \<open>
  Whether every control clicked along a run also has its \<^verbatim>\<open>enabled\<close> property true
  at the moment of the click.
\<close>

fun enabled_along :: "jsstring \<Rightarrow> event list \<Rightarrow> panel \<Rightarrow> bool" where
  "enabled_along iModelId [] s = True"
| "enabled_along iModelId (e # es) s =
     (enabled_prop s e \<and>
      (case step iModelId e s of
         None \<Rightarrow> False
       | Some (s', effs) \<Rightarrow> enabled_along iModelId es s'))"

text \<open>Select mode is on only over a non-empty picture list.\<close>

definition select_inv :: "panel \<Rightarrow> bool" where
  "select_inv s = (selectMode s \<longrightarrow> pictureUrls s \<noteq> [])"

subsection \<open>The specification's reading of a reload\<close>

text \<open>
  The specification describes the list after a reload as the "sorted (ascending,
  lexicographic) de-duplicated contents returned by the store". This definition follows
  those words; \<open>reload\<close> above follows the source.
\<close>

definition sorted_dedup :: "jsstring list \<Rightarrow> jsstring list" where
  "sorted_dedup urls = sort (remdups urls)"

section \<open>Properties\<close>

subsection \<open>The \<^verbatim>\<open>Set\<close> operations and the sort\<close>

lemma set_fold_set_add: "set (fold set_add xs acc) = set acc \<union> set xs"
  by (induction xs arbitrary: acc) (auto simp: set_add_def set_has_def)

lemma distinct_fold_set_add: "distinct acc \<Longrightarrow> distinct (fold set_add xs acc)"
  by (induction xs arbitrary: acc) (auto simp: set_add_def set_has_def)

lemma fold_set_add_distinct: "distinct (acc @ xs) \<Longrightarrow> fold set_add xs acc = acc @ xs"
  by (induction xs arbitrary: acc) (auto simp: set_add_def set_has_def)

lemma set_new_Set: "set (new_Set xs) = set xs"
  by (simp add: new_Set_def set_fold_set_add)

lemma distinct_new_Set: "distinct (new_Set xs)"
  by (simp add: new_Set_def distinct_fold_set_add)

lemma new_Set_distinct: "distinct xs \<Longrightarrow> new_Set xs = xs"
  using fold_set_add_distinct [of "[]" xs] by (simp add: new_Set_def)

lemma new_Set_Nil: "new_Set [] = []"
  by (simp add: new_Set_def)

lemma sort_Nil_iff: "sort xs = [] \<longleftrightarrow> xs = []"
proof -
  have "length (sort xs) = length xs" by simp
  then show ?thesis by (metis length_0_conv)
qed

lemma array_sort_Nil_iff: "array_sort xs = [] \<longleftrightarrow> xs = []"
  by (simp add: array_sort_def sort_Nil_iff)

subsection \<open>\<^verbatim>\<open>reload\<close>\<close>

text \<open>
  Claim C4. If \<^verbatim>\<open>reload\<close> fetches an empty picture list, then afterwards
  \<^verbatim>\<open>selectMode\<close> is false and \<^verbatim>\<open>selectedUrls\<close> is the empty set, whatever the state
  was before the call (\<open>s\<close> is arbitrary).
\<close>

theorem reload_empty_resets_selection:
  "selectMode (fst (reload iModelId [] s)) = False \<and>
   set (selectedUrls (fst (reload iModelId [] s))) = {} \<and>
   set_size (selectedUrls (fst (reload iModelId [] s))) = 0 \<and>
   pictureUrls (fst (reload iModelId [] s)) = []"
  by (simp add: reload_def array_sort_def new_Set_def set_size_def)

text \<open>
  Claim C10. When \<^verbatim>\<open>reload\<close> fetches a non-empty list, the new state is the old one
  with \<^verbatim>\<open>pictureUrls\<close> replaced: \<^verbatim>\<open>selectMode\<close> and \<^verbatim>\<open>selectedUrls\<close> (and
  \<^verbatim>\<open>decoratorActive\<close>) are as before. On every reload, empty or not, the calls made
  are \<^verbatim>\<open>getImages\<close> and then the emission of the reloaded event.
\<close>

theorem reload_frame:
  "(fetched \<noteq> [] \<longrightarrow>
      fst (reload iModelId fetched s) = s\<lparr>pictureUrls := array_sort fetched\<rparr> \<and>
      selectMode (fst (reload iModelId fetched s)) = selectMode s \<and>
      selectedUrls (fst (reload iModelId fetched s)) = selectedUrls s \<and>
      decoratorActive (fst (reload iModelId fetched s)) = decoratorActive s) \<and>
   snd (reload iModelId fetched s) = [GetImages iModelId, ReloadedEmit] \<and>
   ReloadedEmit \<in> set (snd (reload iModelId fetched s))"
  by (simp add: reload_def Let_def array_sort_Nil_iff)

text \<open>
  Claim C10, at a concrete input: a panel in select mode with \<^verbatim>\<open>a.jpg\<close> selected
  fetches \<^verbatim>\<open>b.jpg\<close> and \<^verbatim>\<open>a.jpg\<close>.
\<close>

theorem reload_frame_witness:
  "[js ''b.jpg'', js ''a.jpg''] \<noteq> [] \<and>
   fst (reload (js ''model'') [js ''b.jpg'', js ''a.jpg'']
          \<lparr>pictureUrls = [js ''a.jpg''], decoratorActive = True, selectMode = True,
           selectedUrls = [js ''a.jpg'']\<rparr>)
     = \<lparr>pictureUrls = [js ''a.jpg'', js ''b.jpg''], decoratorActive = True, selectMode = True,
        selectedUrls = [js ''a.jpg'']\<rparr> \<and>
   snd (reload (js ''model'') [js ''b.jpg'', js ''a.jpg'']
          \<lparr>pictureUrls = [js ''a.jpg''], decoratorActive = True, selectMode = True,
           selectedUrls = [js ''a.jpg'']\<rparr>)
     = [GetImages (js ''model''), ReloadedEmit]"
  using reload_frame [of "[js ''b.jpg'', js ''a.jpg'']" "js ''model''"
      "\<lparr>pictureUrls = [js ''a.jpg''], decoratorActive = True, selectMode = True,
        selectedUrls = [js ''a.jpg'']\<rparr>"]
  by (simp add: array_sort_def js_def)

text \<open>
  Claim C2, as stated, fails: \<^verbatim>\<open>urls.sort()\<close> sorts and removes nothing. When the
  store returns \<^verbatim>\<open>a.jpg\<close> twice, the list after the reload holds it twice, and the
  sorted de-duplicated contents hold it once.
\<close>

theorem reload_dedup_counterexample:
  "pictureUrls (fst (reload (js ''model'') [js ''a.jpg'', js ''a.jpg''] initial))
     \<noteq> sorted_dedup [js ''a.jpg'', js ''a.jpg'']"
  by (simp add: reload_def Let_def array_sort_def sorted_dedup_def js_def)

text \<open>
  Claim C2, amended. For every list of URLs returned by the store, after \<^verbatim>\<open>reload\<close>
  the picture list is that list in ascending lexicographic order, each URL as often as
  the store returned it; when the store's list has no duplicates, this is the sorted
  de-duplicated contents of the store result. If the store returns \<^verbatim>\<open>b.jpg\<close>, \<^verbatim>\<open>a.jpg\<close>
  the list is \<^verbatim>\<open>a.jpg\<close>, \<^verbatim>\<open>b.jpg\<close>.
\<close>

theorem reload_sorted:
  "sorted (pictureUrls (fst (reload iModelId fetched s))) \<and>
   mset (pictureUrls (fst (reload iModelId fetched s))) = mset fetched \<and>
   (distinct fetched \<longrightarrow> pictureUrls (fst (reload iModelId fetched s)) = sorted_dedup fetched) \<and>
   pictureUrls (fst (reload iModelId [js ''b.jpg'', js ''a.jpg''] s)) = [js ''a.jpg'', js ''b.jpg'']"
  by (simp add: reload_def Let_def array_sort_def sorted_dedup_def js_def sort_Nil_iff
      distinct_remdups_id)

text \<open>
  Claim C2, amended, at a concrete input: the store returns \<^verbatim>\<open>c.jpg\<close>, \<^verbatim>\<open>a.jpg\<close>,
  \<^verbatim>\<open>b.jpg\<close>, all different.
\<close>

theorem reload_sorted_witness:
  "distinct [js ''c.jpg'', js ''a.jpg'', js ''b.jpg''] \<and>
   pictureUrls (fst (reload (js ''model'') [js ''c.jpg'', js ''a.jpg'', js ''b.jpg''] initial))
     = [js ''a.jpg'', js ''b.jpg'', js ''c.jpg''] \<and>
   sorted_dedup [js ''c.jpg'', js ''a.jpg'', js ''b.jpg'']
     = [js ''a.jpg'', js ''b.jpg'', js ''c.jpg'']"
  using reload_sorted [of "js ''model''" "[js ''c.jpg'', js ''a.jpg'', js ''b.jpg'']" initial]
  by (simp add: sorted_dedup_def js_def)

subsection \<open>Picking and deleting\<close>

text \<open>
  Claim C8. \<^verbatim>\<open>pickImage\<close> first calls \<^verbatim>\<open>ImageCache.pickImage\<close> (the camera button
  without \<^verbatim>\<open>fromLibrary\<close>, the library button with \<^verbatim>\<open>true\<close>); \<^verbatim>\<open>reload\<close> runs
  exactly when the store answered true, and when it answered false nothing else is
  called and the state is the one before.
\<close>

theorem pickImage_reloads_iff_picked:
  "snd (pickImage iModelId fromLibrary picked fetched s) =
     PickImage iModelId fromLibrary # (if picked then snd (reload iModelId fetched s) else []) \<and>
   fst (pickImage iModelId fromLibrary picked fetched s) =
     (if picked then fst (reload iModelId fetched s) else s) \<and>
   (GetImages iModelId \<in> set (snd (pickImage iModelId fromLibrary picked fetched s))) = picked \<and>
   (ReloadedEmit \<in> set (snd (pickImage iModelId fromLibrary picked fetched s))) = picked \<and>
   handle iModelId (CameraClick picked fetched) s = pickImage iModelId None picked fetched s \<and>
   handle iModelId (ImageClick picked fetched) s = pickImage iModelId (Some True) picked fetched s"
  by (simp add: pickImage_def reload_def Let_def split_def)

text \<open>
  Claim C6. For every URL \<open>u\<close>, \<^verbatim>\<open>deleteOne\<close> first presents the yes/no alert. When
  the answer is yes, the store calls are the deletion of exactly \<open>[u]\<close> and the
  \<^verbatim>\<open>getImages\<close> of the reload, and the state is the reloaded one. When the answer is
  no, no store call is made and the state (\<^verbatim>\<open>pictureUrls\<close>, \<^verbatim>\<open>selectMode\<close>,
  \<^verbatim>\<open>selectedUrls\<close>) is unchanged.
\<close>

theorem deleteOne_needs_confirmation:
  "snd (deleteOne iModelId answer fetched u s) =
     PresentYesNoAlert ''DeletePictureTitle'' ''DeletePictureMessage'' True #
       (if answer then DeleteImages [u] # snd (reload iModelId fetched s) else []) \<and>
   filter is_store_op (snd (deleteOne iModelId answer fetched u s)) =
     (if answer then [DeleteImages [u], GetImages iModelId] else []) \<and>
   fst (deleteOne iModelId answer fetched u s) =
     (if answer then fst (reload iModelId fetched s) else s)"
  by (simp add: deleteOne_def reload_def Let_def split_def)

text \<open>
  Claim C3. With the alert answered yes, the delete command of select mode calls
  \<^verbatim>\<open>deleteAllImages\<close> if and only if the size of \<^verbatim>\<open>selectedUrls\<close> equals the length
  of \<^verbatim>\<open>pictureUrls\<close> at the call; otherwise it calls \<^verbatim>\<open>deleteImages\<close>, with exactly
  the selected URLs; in either case the calls of \<^verbatim>\<open>reload\<close> follow and the state is
  the reloaded one. With the alert answered no, no store call is made.
\<close>

theorem deleteSelected_choice:
  "(DeleteAllImages iModelId \<in> set (snd (deleteSelected iModelId True fetched s)))
      = (set_size (selectedUrls s) = length (pictureUrls s)) \<and>
   (DeleteImages us \<in> set (snd (deleteSelected iModelId True fetched s)))
      = (set_size (selectedUrls s) \<noteq> length (pictureUrls s) \<and> us = array_from (selectedUrls s)) \<and>
   set (array_from (selectedUrls s)) = set (selectedUrls s) \<and>
   snd (deleteSelected iModelId True fetched s) =
     (if set_size (selectedUrls s) = length (pictureUrls s)
      then [PresentYesNoAlert ''DeleteAllTitle'' ''DeleteAllMessage'' True, DeleteAllImages iModelId]
      else [PresentYesNoAlert ''DeleteSelectedTitle'' ''DeleteSelectedMessage'' True,
            DeleteImages (array_from (selectedUrls s))])
     @ snd (reload iModelId fetched s) \<and>
   fst (deleteSelected iModelId True fetched s) = fst (reload iModelId fetched s) \<and>
   filter is_store_op (snd (deleteSelected iModelId False fetched s)) = [] \<and>
   fst (deleteSelected iModelId False fetched s) = s"
  by (auto simp add: deleteSelected_def reload_def Let_def split_def array_from_def)

text \<open>
  The scenario of the specification: in select mode with \<^verbatim>\<open>a.jpg\<close> selected out of
  \<^verbatim>\<open>a.jpg\<close>, \<^verbatim>\<open>b.jpg\<close>, a confirmed delete calls \<^verbatim>\<open>deleteImages\<close> with \<^verbatim>\<open>a.jpg\<close>
  and then reloads.
\<close>

lemma deleteSelected_scenario:
  "deleteSelected (js ''model'') True [js ''b.jpg'']
     \<lparr>pictureUrls = [js ''a.jpg'', js ''b.jpg''], decoratorActive = True, selectMode = True,
      selectedUrls = [js ''a.jpg'']\<rparr>
   = (\<lparr>pictureUrls = [js ''b.jpg''], decoratorActive = True, selectMode = True,
       selectedUrls = [js ''a.jpg'']\<rparr>,
      [PresentYesNoAlert ''DeleteSelectedTitle'' ''DeleteSelectedMessage'' True,
       DeleteImages [js ''a.jpg''], GetImages (js ''model''), ReloadedEmit])"
  by (simp add: deleteSelected_def reload_def Let_def array_sort_def set_size_def
      array_from_def js_def)

text \<open>No event deletes from the store without having presented the alert first.\<close>

lemma delete_is_confirmed:
  assumes "DeleteImages us \<in> set (snd (handle iModelId e s)) \<or>
           DeleteAllImages m \<in> set (snd (handle iModelId e s))"
  shows "\<exists>title message rest.
           snd (handle iModelId e s) = PresentYesNoAlert title message True # rest"
  using assms
  by (cases e)
     (auto simp: reload_def Let_def handlePictureClick_def shareOne_def deleteOne_def
        editToggle_def pickImage_def toggleDecoratorVisibility_def toggleSelectAll_def
        shareSelected_def deleteSelected_def split: if_splits)

subsection \<open>Selecting\<close>

text \<open>
  Claim C9. For every selection and every URL \<open>u\<close>, two applications of
  \<^verbatim>\<open>togglePictureSelected\<close> to \<open>u\<close> give back the selection set; one application
  flips the membership of \<open>u\<close> and leaves the membership of every other URL, the
  picture list, \<^verbatim>\<open>selectMode\<close> and \<^verbatim>\<open>decoratorActive\<close> as they were.
\<close>

theorem togglePictureSelected_involution:
  "set (selectedUrls (togglePictureSelected u (togglePictureSelected u s))) = set (selectedUrls s) \<and>
   set_has (selectedUrls (togglePictureSelected u s)) u = (\<not> set_has (selectedUrls s) u) \<and>
   (v \<noteq> u \<longrightarrow> set_has (selectedUrls (togglePictureSelected u s)) v = set_has (selectedUrls s) v) \<and>
   pictureUrls (togglePictureSelected u s) = pictureUrls s \<and>
   selectMode (togglePictureSelected u s) = selectMode s \<and>
   decoratorActive (togglePictureSelected u s) = decoratorActive s"
  by (auto simp add: togglePictureSelected_def Let_def set_has_def set_add_def set_delete_def
      set_new_Set)

text \<open>
  Claim C9, at a concrete input: \<^verbatim>\<open>a.jpg\<close> is toggled in a selection that holds
  \<^verbatim>\<open>a.jpg\<close> and \<^verbatim>\<open>b.jpg\<close>; the other URL looked at is \<^verbatim>\<open>b.jpg\<close>.
\<close>

theorem togglePictureSelected_involution_witness:
  "js ''b.jpg'' \<noteq> js ''a.jpg'' \<and>
   selectedUrls (togglePictureSelected (js ''a.jpg'')
      \<lparr>pictureUrls = [js ''a.jpg'', js ''b.jpg''], decoratorActive = True, selectMode = True,
       selectedUrls = [js ''a.jpg'', js ''b.jpg'']\<rparr>) = [js ''b.jpg''] \<and>
   set (selectedUrls (togglePictureSelected (js ''a.jpg'') (togglePictureSelected (js ''a.jpg'')
      \<lparr>pictureUrls = [js ''a.jpg'', js ''b.jpg''], decoratorActive = True, selectMode = True,
       selectedUrls = [js ''a.jpg'', js ''b.jpg'']\<rparr>))) = {js ''a.jpg'', js ''b.jpg''}"
  using togglePictureSelected_involution [of "js ''a.jpg''"
      "\<lparr>pictureUrls = [js ''a.jpg'', js ''b.jpg''], decoratorActive = True, selectMode = True,
        selectedUrls = [js ''a.jpg'', js ''b.jpg'']\<rparr>" "js ''b.jpg''"]
  by (auto simp add: togglePictureSelected_def Let_def new_Set_def set_add_def set_has_def
      set_delete_def js_def)

text \<open>
  Claim C7, as stated, fails on a picture list that holds a URL twice: after the store
  returned \<^verbatim>\<open>a.jpg\<close> twice nothing is selected, so the state is not all-selected, yet
  the second of two calls of \<^verbatim>\<open>toggleSelectAll\<close> does not give the empty set. The set
  built from the list has one element, the list has length two, and the comparison of
  the two never succeeds.
\<close>

theorem toggleSelectAll_twice_counterexample:
  "set_size (selectedUrls (fst (reload (js ''model'') [js ''a.jpg'', js ''a.jpg''] initial)))
     \<noteq> length (pictureUrls (fst (reload (js ''model'') [js ''a.jpg'', js ''a.jpg''] initial))) \<and>
   set (selectedUrls (fst (toggleSelectAll (fst (toggleSelectAll
          (fst (reload (js ''model'') [js ''a.jpg'', js ''a.jpg''] initial))))))) \<noteq> {}"
  by (simp add: toggleSelectAll_def reload_def Let_def array_sort_def initial_def new_Set_def
      set_add_def set_has_def set_size_def js_def)

text \<open>
  Claim C7, amended. For every selection state, \<^verbatim>\<open>toggleSelectAll\<close> clears the
  selection if the selected count equals the length of the picture list, and otherwise
  replaces it with the set of every URL of the picture list. Starting from a state where
  the two counts differ, and with a picture list that holds no URL twice, two consecutive
  calls give first the full set and then the empty set.
\<close>

theorem toggleSelectAll_toggle:
  "(set_size (selectedUrls s) = length (pictureUrls s) \<longrightarrow>
      set (selectedUrls (fst (toggleSelectAll s))) = {}) \<and>
   (set_size (selectedUrls s) \<noteq> length (pictureUrls s) \<longrightarrow>
      set (selectedUrls (fst (toggleSelectAll s))) = set (pictureUrls s)) \<and>
   (set_size (selectedUrls s) \<noteq> length (pictureUrls s) \<and> distinct (pictureUrls s) \<longrightarrow>
      set (selectedUrls (fst (toggleSelectAll s))) = set (pictureUrls s) \<and>
      set (selectedUrls (fst (toggleSelectAll (fst (toggleSelectAll s))))) = {}) \<and>
   pictureUrls (fst (toggleSelectAll s)) = pictureUrls s \<and>
   selectMode (fst (toggleSelectAll s)) = selectMode s \<and>
   snd (toggleSelectAll s) = []"
  by (auto simp add: toggleSelectAll_def set_new_Set new_Set_Nil new_Set_distinct set_size_def)

text \<open>
  Claim C7, amended, at concrete inputs: with \<^verbatim>\<open>a.jpg\<close> selected out of \<^verbatim>\<open>a.jpg\<close>,
  \<^verbatim>\<open>b.jpg\<close> the first call selects both and the second clears; with both selected one
  call clears.
\<close>

theorem toggleSelectAll_toggle_witness:
  "set_size [js ''a.jpg''] \<noteq> length [js ''a.jpg'', js ''b.jpg''] \<and>
   distinct [js ''a.jpg'', js ''b.jpg''] \<and>
   selectedUrls (fst (toggleSelectAll
      \<lparr>pictureUrls = [js ''a.jpg'', js ''b.jpg''], decoratorActive = True, selectMode = True,
       selectedUrls = [js ''a.jpg'']\<rparr>)) = [js ''a.jpg'', js ''b.jpg''] \<and>
   set (selectedUrls (fst (toggleSelectAll (fst (toggleSelectAll
      \<lparr>pictureUrls = [js ''a.jpg'', js ''b.jpg''], decoratorActive = True, selectMode = True,
       selectedUrls = [js ''a.jpg'']\<rparr>))))) = {} \<and>
   set_size [js ''a.jpg'', js ''b.jpg''] = length [js ''a.jpg'', js ''b.jpg''] \<and>
   set (selectedUrls (fst (toggleSelectAll
      \<lparr>pictureUrls = [js ''a.jpg'', js ''b.jpg''], decoratorActive = True, selectMode = True,
       selectedUrls = [js ''a.jpg'', js ''b.jpg'']\<rparr>))) = {}"
  using toggleSelectAll_toggle [of
      "\<lparr>pictureUrls = [js ''a.jpg'', js ''b.jpg''], decoratorActive = True, selectMode = True,
        selectedUrls = [js ''a.jpg'']\<rparr>"]
    toggleSelectAll_toggle [of
      "\<lparr>pictureUrls = [js ''a.jpg'', js ''b.jpg''], decoratorActive = True, selectMode = True,
        selectedUrls = [js ''a.jpg'', js ''b.jpg'']\<rparr>"]
  by (simp add: toggleSelectAll_def new_Set_def set_add_def set_has_def set_size_def js_def)

subsection \<open>Select mode as a state machine\<close>

lemma step_select_inv:
  assumes "select_inv s" and "step iModelId e s = Some (s', effs)"
  shows "select_inv s'"
  using assms
  by (cases e)
     (auto simp: step_def select_inv_def reload_def Let_def handlePictureClick_def
        togglePictureSelected_def shareOne_def deleteOne_def editToggle_def pickImage_def
        toggleDecoratorVisibility_def toggleSelectAll_def shareSelected_def deleteSelected_def
        split: if_splits)

lemma run_select_inv:
  "select_inv s \<Longrightarrow> run iModelId es s = Some (t, effs) \<Longrightarrow> select_inv t"
proof (induction es arbitrary: s effs)
  case Nil
  then show ?case by simp
next
  case (Cons e es)
  from Cons.prems(2) obtain s' effs1 effs2 where
    st: "step iModelId e s = Some (s', effs1)" and rn: "run iModelId es s' = Some (t, effs2)"
    by (auto split: option.splits prod.splits)
  from step_select_inv [OF Cons.prems(1) st] have "select_inv s'" .
  from Cons.IH [OF this rn] show ?case .
qed

lemma step_enter_select:
  assumes "step iModelId e s = Some (s', effs)" and "\<not> selectMode s" and "selectMode s'"
  shows "e = EditClick \<and> pictureUrls s \<noteq> []"
  using assms
  by (cases e)
     (auto simp: step_def reload_def Let_def handlePictureClick_def
        togglePictureSelected_def shareOne_def deleteOne_def editToggle_def pickImage_def
        toggleDecoratorVisibility_def toggleSelectAll_def shareSelected_def deleteSelected_def
        split: if_splits)

lemma step_leave_select:
  assumes "step iModelId e s = Some (s', effs)" and "selectMode s" and "\<not> selectMode s'"
  shows "(e = EditClick \<and> pictureUrls s \<noteq> []) \<or>
         (pictureUrls s' = [] \<and>
          (e = DeleteSelectedClick True [] \<or> e = MarkerAdded [] \<or> e = Mounted []))"
  using assms
  by (cases e)
     (auto simp: step_def reload_def Let_def handlePictureClick_def array_sort_Nil_iff
        togglePictureSelected_def shareOne_def deleteOne_def editToggle_def pickImage_def
        toggleDecoratorVisibility_def toggleSelectAll_def shareSelected_def deleteSelected_def
        split: if_splits)

text \<open>
  Claim C5. A step takes the panel from browsing to selecting only by the edit toggle,
  which is rendered only over a non-empty picture list; it takes the panel from selecting
  to browsing only by the edit toggle or by a reload that fetched an empty list (after a
  confirmed delete of the selection, or on the marker-added event or the mount effect);
  the edit toggle over a non-empty list does flip the mode. Consequently in every state
  reached from the initial one by any list of events, \<^verbatim>\<open>selectMode\<close> true implies
  \<^verbatim>\<open>pictureUrls\<close> non-empty.
\<close>

theorem selectMode_transitions:
  "(step iModelId e s = Some (s', effs) \<and> \<not> selectMode s \<and> selectMode s' \<longrightarrow>
      e = EditClick \<and> pictureUrls s \<noteq> []) \<and>
   (step iModelId f r = Some (r', feffs) \<and> selectMode r \<and> \<not> selectMode r' \<longrightarrow>
      (f = EditClick \<and> pictureUrls r \<noteq> []) \<or>
      (pictureUrls r' = [] \<and>
       (f = DeleteSelectedClick True [] \<or> f = MarkerAdded [] \<or> f = Mounted []))) \<and>
   (pictureUrls p \<noteq> [] \<longrightarrow>
      step iModelId EditClick p = Some (p\<lparr>selectMode := \<not> selectMode p\<rparr>, [])) \<and>
   (run iModelId es initial = Some (t, teffs) \<and> selectMode t \<longrightarrow> pictureUrls t \<noteq> [])"
proof -
  have "select_inv initial" by (simp add: select_inv_def initial_def)
  then have "run iModelId es initial = Some (t, teffs) \<Longrightarrow> select_inv t"
    by (rule run_select_inv)
  moreover have "pictureUrls p \<noteq> [] \<Longrightarrow>
      step iModelId EditClick p = Some (p\<lparr>selectMode := \<not> selectMode p\<rparr>, [])"
    by (simp add: step_def editToggle_def)
  ultimately show ?thesis
    using step_enter_select [of iModelId e s s' effs]
      step_leave_select [of iModelId f r r' feffs]
    by (simp add: select_inv_def)
qed

text \<open>
  Claim C5, at concrete inputs: the edit toggle over the list \<^verbatim>\<open>a.jpg\<close> enters select
  mode; a confirmed delete of the whole selection whose reload fetches nothing leaves
  it; and the run that mounts with \<^verbatim>\<open>a.jpg\<close> and clicks the edit toggle ends in select
  mode over a non-empty list.
\<close>

theorem selectMode_transitions_witness:
  "step (js ''model'') EditClick
      \<lparr>pictureUrls = [js ''a.jpg''], decoratorActive = True, selectMode = False, selectedUrls = []\<rparr>
     = Some (\<lparr>pictureUrls = [js ''a.jpg''], decoratorActive = True, selectMode = True,
              selectedUrls = []\<rparr>, []) \<and>
   step (js ''model'') (DeleteSelectedClick True [])
      \<lparr>pictureUrls = [js ''a.jpg''], decoratorActive = True, selectMode = True,
       selectedUrls = [js ''a.jpg'']\<rparr>
     = Some (\<lparr>pictureUrls = [], decoratorActive = True, selectMode = False, selectedUrls = []\<rparr>,
             [PresentYesNoAlert ''DeleteAllTitle'' ''DeleteAllMessage'' True,
              DeleteAllImages (js ''model''), GetImages (js ''model''), ReloadedEmit]) \<and>
   [js ''a.jpg''] \<noteq> [] \<and>
   run (js ''model'') [Mounted [js ''a.jpg''], EditClick] initial
     = Some (\<lparr>pictureUrls = [js ''a.jpg''], decoratorActive = True, selectMode = True,
              selectedUrls = []\<rparr>, [GetImages (js ''model''), ReloadedEmit])"
  using selectMode_transitions [where iModelId = "js ''model''" and e = EditClick
      and s = "\<lparr>pictureUrls = [js ''a.jpg''], decoratorActive = True, selectMode = False,
                selectedUrls = []\<rparr>"
      and s' = "\<lparr>pictureUrls = [js ''a.jpg''], decoratorActive = True, selectMode = True,
                 selectedUrls = []\<rparr>"
      and effs = "[]"
      and f = "DeleteSelectedClick True []"
      and r = "\<lparr>pictureUrls = [js ''a.jpg''], decoratorActive = True, selectMode = True,
                selectedUrls = [js ''a.jpg'']\<rparr>"
      and r' = "\<lparr>pictureUrls = [], decoratorActive = True, selectMode = False,
                 selectedUrls = []\<rparr>"
      and feffs = "[PresentYesNoAlert ''DeleteAllTitle'' ''DeleteAllMessage'' True,
                    DeleteAllImages (js ''model''), GetImages (js ''model''), ReloadedEmit]"
      and p = "\<lparr>pictureUrls = [js ''a.jpg''], decoratorActive = True, selectMode = False,
                selectedUrls = []\<rparr>"
      and es = "[Mounted [js ''a.jpg''], EditClick]"
      and t = "\<lparr>pictureUrls = [js ''a.jpg''], decoratorActive = True, selectMode = True,
                selectedUrls = []\<rparr>"
      and teffs = "[GetImages (js ''model''), ReloadedEmit]"]
  by (simp add: step_def reload_def Let_def array_sort_def editToggle_def deleteSelected_def
      initial_def new_Set_def set_size_def array_from_def js_def)

subsection \<open>The selection and the picture list\<close>

text \<open>
  The operations on the selection alone keep it inside the picture list: a click on a
  rendered picture and the select-all toggle. So does a reload whose fetched list holds
  every selected URL, and a reload that fetches nothing.
\<close>

lemma click_keeps_selection_inside:
  assumes "set (selectedUrls s) \<subseteq> set (pictureUrls s)" and "rendered s (PictureClick u)"
  shows "set (selectedUrls (fst (handlePictureClick u s))) \<subseteq> set (pictureUrls (fst (handlePictureClick u s)))"
  using assms
  by (auto simp: handlePictureClick_def togglePictureSelected_def Let_def set_has_def
      set_add_def set_delete_def set_new_Set split: if_splits)

lemma toggleSelectAll_keeps_selection_inside:
  "set (selectedUrls (fst (toggleSelectAll s))) \<subseteq> set (pictureUrls (fst (toggleSelectAll s)))"
  by (simp add: toggleSelectAll_def set_new_Set new_Set_Nil)

lemma reload_keeps_selection_inside:
  assumes "set (selectedUrls s) \<subseteq> set fetched"
  shows "set (selectedUrls (fst (reload iModelId fetched s)))
           \<subseteq> set (pictureUrls (fst (reload iModelId fetched s)))"
  using assms by (simp add: reload_def Let_def array_sort_def new_Set_Nil)

text \<open>
  Claim C1 does not hold of the code. The panel mounts with three pictures, the user
  enters select mode, selects \<^verbatim>\<open>a.jpg\<close> and confirms the delete; the store then holds
  \<^verbatim>\<open>b.jpg\<close> and \<^verbatim>\<open>c.jpg\<close>. The reload replaces the picture list and, the list not
  being empty, leaves the selection as it was: \<^verbatim>\<open>a.jpg\<close> stays selected and is not in
  the picture list. Every control clicked on the way is rendered and enabled.
\<close>

theorem stale_selection_after_delete:
  "map_option fst (run (js ''model'')
      [Mounted [js ''c.jpg'', js ''b.jpg'', js ''a.jpg''], EditClick, PictureClick (js ''a.jpg''),
       DeleteSelectedClick True [js ''b.jpg'', js ''c.jpg'']] initial)
     = Some \<lparr>pictureUrls = [js ''b.jpg'', js ''c.jpg''], decoratorActive = True,
             selectMode = True, selectedUrls = [js ''a.jpg'']\<rparr> \<and>
   \<not> set [js ''a.jpg''] \<subseteq> set [js ''b.jpg'', js ''c.jpg''] \<and>
   enabled_along (js ''model'')
      [Mounted [js ''c.jpg'', js ''b.jpg'', js ''a.jpg''], EditClick, PictureClick (js ''a.jpg''),
       DeleteSelectedClick True [js ''b.jpg'', js ''c.jpg'']] initial"
  by (simp add: step_def reload_def Let_def handlePictureClick_def array_sort_def
        togglePictureSelected_def editToggle_def deleteSelected_def initial_def
        new_Set_def set_add_def set_has_def set_delete_def set_size_def array_from_def js_def)

text \<open>
  What the stale selection leads to: from the state above the user selects \<^verbatim>\<open>b.jpg\<close>.
  Two URLs are now selected and the list has two pictures, so the delete command takes
  the selection for the whole list and calls \<^verbatim>\<open>deleteAllImages\<close>, which removes
  \<^verbatim>\<open>c.jpg\<close>, a picture that was never selected.
\<close>

lemma stale_selection_deletes_all:
  "map_option snd (run (js ''model'')
      [PictureClick (js ''b.jpg''), DeleteSelectedClick True []]
      \<lparr>pictureUrls = [js ''b.jpg'', js ''c.jpg''], decoratorActive = True,
             selectMode = True, selectedUrls = [js ''a.jpg'']\<rparr>)
     = Some [PresentYesNoAlert ''DeleteAllTitle'' ''DeleteAllMessage'' True,
             DeleteAllImages (js ''model''), GetImages (js ''model''), ReloadedEmit]"
  by (simp add: step_def reload_def Let_def handlePictureClick_def array_sort_def
        togglePictureSelected_def editToggle_def deleteSelected_def initial_def
        new_Set_def set_add_def set_has_def set_delete_def set_size_def array_from_def js_def)

end
